theory Spec2Isabelle
  imports Main "HOL-Library.Sublist"
begin

section \<open>Python text primitives\<close>

text \<open>
  Python \<open>str\<close> values are modelled by their UTF-8 byte sequence (\<open>string\<close>), so that
  \<open>encode('utf8')\<close> and \<open>bytes_to_str\<close> are the identity.  Only the methods the
  backends call are modelled.
\<close>

definition nl :: string where
  "nl = [CHR 0x0A]"

definition startswith :: "string \<Rightarrow> string \<Rightarrow> bool" where
  "startswith s sub = (take (length sub) s = sub)"

definition endswith :: "string \<Rightarrow> string \<Rightarrow> bool" where
  "endswith s sub = (length sub \<le> length s \<and> drop (length s - length sub) s = sub)"

text \<open>\<open>s.find(sub)\<close>: the lowest index where \<open>sub\<close> occurs in \<open>s\<close>, or \<open>-1\<close>.\<close>

fun find_at :: "nat \<Rightarrow> string \<Rightarrow> string \<Rightarrow> int" where
  "find_at i [] sub = (if sub = [] then int i else - 1)"
| "find_at i (c # cs) sub =
     (if startswith (c # cs) sub then int i else find_at (Suc i) cs sub)"

definition str_find :: "string \<Rightarrow> string \<Rightarrow> int" where
  "str_find s sub = find_at 0 s sub"

text \<open>\<open>s.split(sep)\<close> for a one-character separator: empty fields are kept.\<close>

fun str_split :: "char \<Rightarrow> string \<Rightarrow> string list" where
  "str_split sep [] = [[]]"
| "str_split sep (c # cs) =
     (if c = sep then [] # str_split sep cs
      else (case str_split sep cs of [] \<Rightarrow> [[c]] | w # ws \<Rightarrow> (c # w) # ws))"

text \<open>\<open>s.replace('%J', new)\<close>: every occurrence, left to right, without overlap.\<close>

fun replace_J :: "string \<Rightarrow> string \<Rightarrow> string" where
  "replace_J new (a # b # cs) =
     (if a = CHR ''%'' \<and> b = CHR ''J'' then new @ replace_J new cs
      else a # replace_J new (b # cs))"
| "replace_J new cs = cs"

text \<open>\<open>str(n)\<close> of an integer: decimal, with a minus sign when negative.\<close>

definition digit_char :: "nat \<Rightarrow> char" where
  "digit_char d = char_of (48 + d)"

fun dec :: "nat \<Rightarrow> string" where
  "dec n = (if n < 10 then [digit_char n] else dec (n div 10) @ [digit_char (n mod 10)])"

definition str_int :: "int \<Rightarrow> string" where
  "str_int i = (if i < 0 then CHR ''-'' # dec (nat (- i)) else dec (nat i))"







section \<open>Exceptions, effects and the manager object\<close>

text \<open>
  The exceptions that reach the backends.  \<open>OSError\<close> carries its \<open>errno\<close>;
  \<open>FileNotFoundError\<close> is the \<open>OSError\<close> whose \<open>errno\<close> is \<open>ENOENT\<close>.
  \<open>OtherException\<close> is any further subclass of \<open>Exception\<close>; \<open>KeyboardInterrupt\<close>
  is the only one here that is not a subclass of \<open>Exception\<close>.
\<close>

datatype exn =
    OSError int
  | KeyboardInterrupt
  | ValueError
  | IndexError
  | NameError string
  | UnboundLocalError string
  | AttributeError string
  | TypeError
  | KeyError string
  | OtherException

definition ENOENT :: int where
  "ENOENT = 2"

datatype signal = SIGINT | SIGTERM | SIGKILL

text \<open>
  What a method does to the outside world, in program order.  \<open>Sleep\<close> is in
  milliseconds.  \<open>print(x)\<close> is \<open>print_line x\<close>: the text and a newline.
\<close>

datatype event =
    Stdout string
  | Stderr string
  | FlushOut
  | FlushErr
  | Sleep nat
  | Spawn "string list"
  | Communicate string
  | Send signal
  | Poll
  | Run "string list"
  | ReadFile string
  | ReadStreams

definition print_line :: "string \<Rightarrow> event" where
  "print_line s = Stdout (s @ nl)"

datatype backend = BasicMgr | SSHMgr | SlurmMgr

text \<open>
  A manager instance.  The attributes \<open>p\<close>, \<open>_is_terminated\<close> and \<open>_jobid\<close> may be
  unset when a method reads them (\<open>None\<close> here), which raises \<open>AttributeError\<close>.
  \<open>_is_started\<close>, \<open>_outerr_files\<close> and \<open>_args_jobid\<close> are read by \<open>SlurmMgr\<close> only,
  whose constructor always sets them; \<open>args_jobid = None\<close> is Python's \<open>None\<close>.  The
  \<open>Popen\<close> object \<open>p\<close> is represented by its process id.
\<close>

record mgr =
  cls :: backend
  waiting_steps :: int
  running_steps :: int
  shebang :: string
  out :: "string option"
  err :: "string option"
  userns :: "string \<rightharpoonup> int"
  cmd :: "string list"
  p :: "int option"
  is_started :: bool
  is_terminated :: "bool option"
  outerr_files :: string
  args_jobid :: "string option"
  jobid :: "int option"

text \<open>What a method returns: Python's \<open>None\<close>, or a pair whose halves may be \<open>None\<close>.\<close>

datatype ret = RNone | RPair "string option" "string option"

type_synonym 'a result = "event list \<times> (exn + 'a) \<times> mgr"

section \<open>BaseMgr\<close>

text \<open>\<open>BaseMgr.__init__\<close>: the fields every backend starts from.\<close>

definition BaseMgr_init :: "backend \<Rightarrow> string \<Rightarrow> (string \<rightharpoonup> int) \<Rightarrow> mgr" where
  "BaseMgr_init c shell ns =
     \<lparr> cls = c, waiting_steps = 0, running_steps = 0,
       shebang = ''#!'' @ shell @ '' '' @ nl,
       out = None, err = None, userns = ns,
       cmd = [], p = None, is_started = False, is_terminated = None,
       outerr_files = [], args_jobid = None, jobid = None \<rparr>"

subsection \<open>The interrupt ladder\<close>

text \<open>
  What the process does when \<open>_interrupt\<close> runs: for each of the three signalling
  calls whether it raises, and what \<open>poll()\<close> returns after each settle delay.
\<close>

record ladder =
  on_sigint :: "exn option"
  poll_after_sigint :: "int option"
  on_terminate :: "exn option"
  poll_after_terminate :: "int option"
  on_kill :: "exn option"

text \<open>The body of the \<open>try\<close> block of \<open>_interrupt\<close>, for a manager that has a process.\<close>

definition interrupt_body :: "ladder \<Rightarrow> event list \<times> (exn + unit)" where
  "interrupt_body l =
     (case on_sigint l of
        Some e \<Rightarrow> ([Send SIGINT], Inl e)
      | None \<Rightarrow>
          (case poll_after_sigint l of
             Some rc \<Rightarrow>
               ([Send SIGINT, Sleep 100, Poll, print_line ''Process is interrupted.''], Inr ())
           | None \<Rightarrow>
               (case on_terminate l of
                  Some e \<Rightarrow> ([Send SIGINT, Sleep 100, Poll, Send SIGTERM], Inl e)
                | None \<Rightarrow>
                    (case poll_after_terminate l of
                       Some rc \<Rightarrow>
                         ([Send SIGINT, Sleep 100, Poll, Send SIGTERM, Sleep 100, Poll,
                           print_line ''Process is terminated.''], Inr ())
                     | None \<Rightarrow>
                         (case on_kill l of
                            Some e \<Rightarrow>
                              ([Send SIGINT, Sleep 100, Poll, Send SIGTERM, Sleep 100, Poll,
                                Send SIGKILL], Inl e)
                          | None \<Rightarrow>
                              ([Send SIGINT, Sleep 100, Poll, Send SIGTERM, Sleep 100, Poll,
                                Send SIGKILL, print_line ''Process is killed.''],
                               Inr ()))))))"

text \<open>
  \<open>_interrupt\<close>, with its two handlers.  \<open>except OSError: pass\<close> swallows;
  \<open>except Exception as e\<close> prints a line naming the pid (\<open>etext\<close> is \<open>str(e)\<close>,
  supplied with the exception); \<open>KeyboardInterrupt\<close> is caught by neither.  Without a
  process the body raises \<open>AttributeError\<close>, and so does the second handler when it
  reads \<open>self.p.pid\<close>.
\<close>

definition interrupt :: "ladder \<Rightarrow> string \<Rightarrow> mgr \<Rightarrow> unit result" where
  "interrupt l etext m =
     (case p m of
        None \<Rightarrow> ([], Inl (AttributeError ''p''), m)
      | Some pid \<Rightarrow>
          (case interrupt_body l of
             (evs, Inr u) \<Rightarrow> (evs, Inr (), m)
           | (evs, Inl e) \<Rightarrow>
               (case e of
                  OSError n \<Rightarrow> (evs, Inr (), m)
                | KeyboardInterrupt \<Rightarrow> (evs, Inl KeyboardInterrupt, m)
                | _ \<Rightarrow>
                    (evs @ [print_line (''Error while terminating subprocess (pid='' @
                                        str_int pid @ ''): '' @ etext)],
                     Inr (), m))))"

text \<open>The signalling calls recorded in a trace, in order.\<close>

fun sent_signals :: "event list \<Rightarrow> signal list" where
  "sent_signals [] = []"
| "sent_signals (Send s # evs) = s # sent_signals evs"
| "sent_signals (e # evs) = sent_signals evs"

fun is_Stdout :: "event \<Rightarrow> bool" where
  "is_Stdout (Stdout t) = True"
| "is_Stdout e = False"

text \<open>Whatever the signalling calls of a ladder raise is an \<open>OSError\<close>.\<close>

fun os_level :: "exn option \<Rightarrow> bool" where
  "os_level None = True"
| "os_level (Some (OSError n)) = True"
| "os_level (Some e) = False"

definition raises_only_OSError :: "ladder \<Rightarrow> bool" where
  "raises_only_OSError l =
     (os_level (on_sigint l) \<and> os_level (on_terminate l) \<and> os_level (on_kill l))"

subsection \<open>The progress stepper\<close>





section \<open>Spawning and piping\<close>

text \<open>
  \<open>Popen(...)\<close> either raises or yields a process, given here by its pid.  The
  diagnostic of a missing executable prints \<open>repr(cmd[0])\<close>; \<open>cmd[0]\<close> is always the
  head of \<open>_wlbin\<close>, a plain word, whose \<open>repr\<close> is the word in single quotes.
\<close>

definition no_program :: "string list \<Rightarrow> event" where
  "no_program c = print_line (''Couldn't find program: '' @ [CHR 0x27] @ hd c @ [CHR 0x27])"

text \<open>The script piped to the process: shebang line, cell content, final newline.\<close>

definition make_script :: "mgr \<Rightarrow> string \<Rightarrow> string" where
  "make_script m content =
     (let script = shebang m @ content
      in if \<not> endswith script nl then script @ nl else script)"


section \<open>BasicMgr\<close>

definition BasicMgr_init ::
  "(exn + int) \<Rightarrow> string list \<Rightarrow> string \<Rightarrow> (string \<rightharpoonup> int) \<Rightarrow> event list \<times> (exn + mgr)" where
  "BasicMgr_init spawn args shell ns =
     (let m = (BaseMgr_init BasicMgr shell ns)\<lparr>cmd := [''bash''] @ args\<rparr>
      in case spawn of
           Inr pid \<Rightarrow> ([Spawn (cmd m)], Inr (m\<lparr>p := Some pid\<rparr>))
         | Inl (OSError n) \<Rightarrow>
             if n = ENOENT then ([Spawn (cmd m), no_program (cmd m)], Inr m)
             else ([Spawn (cmd m)], Inl (OSError n))
         | Inl e \<Rightarrow> ([Spawn (cmd m)], Inl e))"

text \<open>
  \<open>submit\<close>: \<open>comm\<close> is what \<open>communicate\<close> does, the captured pair or an exception.
  Only \<open>KeyboardInterrupt\<close> is handled: the ladder runs and \<open>None\<close> is returned.
\<close>

definition BasicMgr_submit ::
  "(exn + string \<times> string) \<Rightarrow> ladder \<Rightarrow> string \<Rightarrow> string \<Rightarrow> mgr \<Rightarrow> ret result" where
  "BasicMgr_submit comm l etext content m =
     (let script = make_script m content
      in case p m of
           None \<Rightarrow> ([], Inl (AttributeError ''p''), m)
         | Some pid \<Rightarrow>
             (case comm of
                Inl KeyboardInterrupt \<Rightarrow>
                  (case interrupt l etext m of
                     (evs, Inl e, m') \<Rightarrow> (Communicate script # evs, Inl e, m')
                   | (evs, Inr u, m') \<Rightarrow> (Communicate script # evs, Inr RNone, m'))
              | Inl e \<Rightarrow> ([Communicate script], Inl e, m)
              | Inr (so, se) \<Rightarrow>
                  ([Communicate script], Inr (RPair (Some so) (Some se)),
                   m\<lparr>out := Some so, err := Some se\<rparr>)))"


definition BasicMgr_get_output :: "mgr \<Rightarrow> ret result" where
  "BasicMgr_get_output m = ([], Inr (RPair None None), m)"

section \<open>SSHMgr\<close>

text \<open>
  The namespace that \<open>parse_known_args\<close> returns for the options \<open>--host\<close> and
  \<open>--pid\<close>.  The parser is library code and a parameter of the constructor; it fills
  in the default host.  The namespace is a local variable of \<open>__init__\<close>: only the host
  reaches the object, inside \<open>cmd\<close>.
\<close>

record ssh_args =
  arg_host :: string
  arg_pid :: "string option"

definition SSHMgr_init ::
  "(string list \<Rightarrow> ssh_args \<times> string list) \<Rightarrow> string list \<Rightarrow> string \<Rightarrow> (string \<rightharpoonup> int)
     \<Rightarrow> event list \<times> (exn + mgr)" where
  "SSHMgr_init parse args shell ns =
     (case parse args of
        (a, rest) \<Rightarrow>
          ([], Inr ((BaseMgr_init SSHMgr shell ns)
                      \<lparr>cmd := [''ssh'', ''-n''] @ [arg_host a] @ rest\<rparr>)))"

text \<open>
  \<open>get_output\<close>: \<open>streams\<close> is what reading the two pipes to the end yields.  Before
  termination the method returns a bare \<open>None\<close>.
\<close>

definition SSHMgr_get_output :: "string \<times> string \<Rightarrow> mgr \<Rightarrow> ret result" where
  "SSHMgr_get_output streams m =
     (case is_terminated m of
        None \<Rightarrow> ([], Inl (AttributeError ''_is_terminated''), m)
      | Some True \<Rightarrow>
          if out m = None \<and> err m = None then
            (case p m of
               None \<Rightarrow> ([], Inl (AttributeError ''p''), m)
             | Some pid \<Rightarrow>
                 ([ReadStreams], Inr (RPair (Some (fst streams)) (Some (snd streams))),
                  m\<lparr>out := Some (fst streams), err := Some (snd streams)\<rparr>))
          else ([], Inr (RPair (out m) (err m)), m)
      | Some False \<Rightarrow> ([], Inr RNone, m))"

text \<open>
  The part of \<open>submit\<close> after the \<open>try\<close> statement: one liveness probe.  When the
  process is alive the next statement reads \<open>_args.pid\<close>; \<open>_args\<close> is bound neither
  in \<open>submit\<close> nor in the module, so \<open>NameError\<close> is raised there.
\<close>

definition ssh_after_spawn :: "event list \<Rightarrow> int option \<Rightarrow> string \<times> string \<Rightarrow> mgr \<Rightarrow> ret result" where
  "ssh_after_spawn evs polled streams m =
     (case p m of
        None \<Rightarrow> (evs, Inl (AttributeError ''p''), m)
      | Some pid \<Rightarrow>
          (case polled of
             None \<Rightarrow> (evs @ [Poll], Inl (NameError ''_args''), m)
           | Some rc \<Rightarrow>
               (case SSHMgr_get_output streams (m\<lparr>is_terminated := Some True\<rparr>) of
                  (evs', r, m') \<Rightarrow> (evs @ [Poll] @ evs', r, m'))))"

definition SSHMgr_submit ::
  "(exn + int) \<Rightarrow> ladder \<Rightarrow> string \<Rightarrow> int option \<Rightarrow> string \<times> string \<Rightarrow> string \<Rightarrow> mgr
     \<Rightarrow> ret result" where
  "SSHMgr_submit spawn l etext polled streams content m =
     (let m0 = m\<lparr>is_terminated := Some False\<rparr>;
          argv = cmd m @ [content]
      in case spawn of
           Inr pid \<Rightarrow> ssh_after_spawn [Spawn argv] polled streams (m0\<lparr>p := Some pid\<rparr>)
         | Inl (OSError n) \<Rightarrow>
             if n = ENOENT then ([Spawn argv, no_program (cmd m)], Inr RNone, m0)
             else ([Spawn argv], Inl (OSError n), m0)
         | Inl KeyboardInterrupt \<Rightarrow>
             (case interrupt l etext m0 of
                (evs, Inl e, m1) \<Rightarrow> (Spawn argv # evs, Inl e, m1)
              | (evs, Inr u, m1) \<Rightarrow>
                  ssh_after_spawn (Spawn argv # evs) polled streams
                    (m1\<lparr>is_terminated := Some True\<rparr>))
         | Inl e \<Rightarrow> ([Spawn argv], Inl e, m0))"



section \<open>SlurmMgr\<close>




text \<open>
  \<open>os.path.join(a, b)\<close> for a relative \<open>b\<close>; \<open>' '.join(xs)\<close>.
\<close>

definition path_join :: "string \<Rightarrow> string \<Rightarrow> string" where
  "path_join a b = (if a = [] \<or> last a = CHR ''/'' then a @ b else a @ ''/'' @ b)"

fun join_sp :: "string list \<Rightarrow> string" where
  "join_sp [] = []"
| "join_sp [x] = x"
| "join_sp (x # y # ys) = x @ '' '' @ join_sp (y # ys)"

text \<open>
  The constructor.  \<open>dflt\<close> is the package constant \<open>_DEFAULT_SLURM_OUTERR_FILE\<close> and
  \<open>home\<close> the environment variable \<open>HOME\<close>, whose absence raises \<open>KeyError\<close>;
  \<open>parse\<close> is the library parser for the option \<open>--jobid\<close>, returning its value and
  the remaining arguments.
\<close>

definition SlurmMgr_init ::
  "string option \<Rightarrow> string option \<Rightarrow> (string list \<Rightarrow> string option \<times> string list)
     \<Rightarrow> (exn + int) \<Rightarrow> string list \<Rightarrow> string \<Rightarrow> (string \<rightharpoonup> int)
     \<Rightarrow> event list \<times> (exn + mgr)" where
  "SlurmMgr_init dflt home parse spawn args shell ns =
     (case (case dflt of
              None \<Rightarrow>
                (case home of
                   None \<Rightarrow> Inl (KeyError ''HOME'')
                 | Some h \<Rightarrow> Inr (path_join h ''python-execute-slurm.%J''))
            | Some f \<Rightarrow> Inr f) of
        Inl e \<Rightarrow> ([], Inl e)
      | Inr files \<Rightarrow>
          (case parse args of
             (aj, rest) \<Rightarrow>
               (let m = (BaseMgr_init SlurmMgr shell ns)
                          \<lparr>outerr_files := files,
                           cmd := [''sbatch'', ''-n'', ''1''] @ rest @
                                  [''--output='' @ files @ ''.out'',
                                   ''--error='' @ files @ ''.err''],
                           is_started := False, is_terminated := Some False,
                           args_jobid := aj\<rparr>
                in case spawn of
                     Inr pid \<Rightarrow> ([Spawn (cmd m)], Inr (m\<lparr>p := Some pid\<rparr>))
                   | Inl (OSError n) \<Rightarrow>
                       if n = ENOENT then ([Spawn (cmd m), no_program (cmd m)], Inr m)
                       else ([Spawn (cmd m)], Inl (OSError n))
                   | Inl e \<Rightarrow> ([Spawn (cmd m)], Inl e))))"



text \<open>
  \<open>_get_job_state\<close>: the reply carries what \<open>sacct\<close> prints and what \<open>squeue\<close>
  prints; \<open>squeue\<close> is run only when \<open>sacct\<close> printed nothing.  Both commands are
  taken to exit with status zero.  \<open>j\<close> is the value of \<open>self._jobid\<close>.
\<close>

definition sacct_cmd :: "int \<Rightarrow> string list" where
  "sacct_cmd j = str_split CHR '' '' (''sacct -j'' @ str_int j @ '' --format=State -n -X'')"

definition squeue_cmd :: "int \<Rightarrow> string list" where
  "squeue_cmd j =
     str_split CHR '' '' (''squeue -j'' @ str_int j @ '' -h -o '' @ [CHR 0x27] @ ''%T'' @ [CHR 0x27])"

definition get_job_state :: "string \<times> string \<Rightarrow> int \<Rightarrow> event list \<times> string" where
  "get_job_state reply j =
     (if fst reply = [] then ([Run (sacct_cmd j), Run (squeue_cmd j)], snd reply)
      else ([Run (sacct_cmd j)], fst reply))"









text \<open>
  \<open>get_output\<close>: \<open>files\<close> maps a path to the content of the file there, if there is
  one; a missing file makes \<open>open\<close> raise \<open>FileNotFoundError\<close>.  The local variable
  \<open>job_err\<close> is unbound (\<open>None\<close> here) until one of its two assignments runs: the one in
  the handler for the missing output file, or the read of the error file.
\<close>

definition not_found :: "string \<Rightarrow> event list" where
  "not_found f = [Stderr (''File not found : '' @ f @ nl), FlushErr]"

definition read_results ::
  "(string \<rightharpoonup> string) \<Rightarrow> string \<Rightarrow> string \<Rightarrow> event list \<times> string \<times> string option" where
  "read_results files job_out_f job_err_f =
     (case (case files job_out_f of
              Some c \<Rightarrow> ([ReadFile job_out_f], c, None)
            | None \<Rightarrow> (ReadFile job_out_f # not_found job_out_f, [], Some [])) of
        (e1, job_out, job_err) \<Rightarrow>
          (case files job_err_f of
             Some c \<Rightarrow> (e1 @ [ReadFile job_err_f], job_out, Some c)
           | None \<Rightarrow> (e1 @ ReadFile job_err_f # not_found job_err_f, job_out, job_err)))"

text \<open>
  The first statements of the output phase: the state is queried once more, and a
  diagnostic names the submit command unless the state contains \<open>COMPLETED\<close>.
\<close>

definition state_check :: "string \<times> string \<Rightarrow> int \<Rightarrow> string list \<Rightarrow> event list" where
  "state_check reply j c =
     fst (get_job_state reply j) @
     (if str_find (snd (get_job_state reply j)) ''COMPLETED'' < 0
      then [Stderr (''Slurm command was : '' @ join_sp c @ nl), FlushErr]
      else [])"

definition job_file :: "int \<Rightarrow> string \<Rightarrow> string" where
  "job_file j template = replace_J (str_int j) template"

definition SlurmMgr_get_output ::
  "string \<times> string \<Rightarrow> (string \<rightharpoonup> string) \<Rightarrow> mgr \<Rightarrow> ret result" where
  "SlurmMgr_get_output reply files m =
     (if is_started m then
        (case is_terminated m of
           None \<Rightarrow> ([], Inl (AttributeError ''_is_terminated''), m)
         | Some False \<Rightarrow> ([], Inr (RPair None None), m)
         | Some True \<Rightarrow>
             (case jobid m of
                None \<Rightarrow> ([], Inl (AttributeError ''_jobid''), m)
              | Some j \<Rightarrow>
                  if out m = None \<and> err m = None then
                    (case read_results files (job_file j (outerr_files m) @ ''.out'')
                                             (job_file j (outerr_files m) @ ''.err'') of
                       (e1, job_out, None) \<Rightarrow>
                         (state_check reply j (cmd m) @ e1,
                          Inl (UnboundLocalError ''job_err''), m)
                     | (e1, job_out, Some job_err) \<Rightarrow>
                         (state_check reply j (cmd m) @ e1,
                          Inr (RPair (Some job_out) (Some job_err)),
                          m\<lparr>out := Some job_out, err := Some job_err\<rparr>))
                  else (state_check reply j (cmd m), Inr (RPair (out m) (err m)), m)))
      else ([], Inr (RPair None None), m))"

section \<open>States and scenarios used in the statements\<close>


text \<open>What the library parsers return for an argument list without any option.\<close>

definition no_options :: "string list \<Rightarrow> ssh_args \<times> string list" where
  "no_options args = (\<lparr>arg_host = ''localhost'', arg_pid = None\<rparr>, args)"

definition no_jobid :: "string list \<Rightarrow> string option \<times> string list" where
  "no_jobid args = (None, args)"

text \<open>A process that takes every signal and never exits.\<close>

definition stubborn :: ladder where
  "stubborn = \<lparr>on_sigint = None, poll_after_sigint = None, on_terminate = None,
                poll_after_terminate = None, on_kill = None\<rparr>"

text \<open>
  The managers of the scenarios: a local and a remote one as their constructors leave
  them for the shell \<open>/bin/bash\<close>, no extra argument and an empty namespace; and a
  cluster one for the home directory \<open>/home/u\<close>, fresh, after the acknowledgment of
  job 4242, and after two waiting steps and one running step.
\<close>

definition basic_fresh :: mgr where
  "basic_fresh = (BaseMgr_init BasicMgr ''/bin/bash'' Map.empty)\<lparr>cmd := [''bash''], p := Some 100\<rparr>"

definition ssh_fresh :: mgr where
  "ssh_fresh = (BaseMgr_init SSHMgr ''/bin/bash'' Map.empty)\<lparr>cmd := [''ssh'', ''-n'', ''localhost'']\<rparr>"

definition slurm_fresh :: mgr where
  "slurm_fresh =
     (BaseMgr_init SlurmMgr ''/bin/bash'' Map.empty)
       \<lparr>outerr_files := ''/home/u/python-execute-slurm.%J'',
        cmd := [''sbatch'', ''-n'', ''1'', ''--output=/home/u/python-execute-slurm.%J.out'',
                ''--error=/home/u/python-execute-slurm.%J.err''],
        is_started := False, is_terminated := Some False, args_jobid := None,
        p := Some 100\<rparr>"

definition slurm_submitted :: mgr where
  "slurm_submitted = slurm_fresh\<lparr>jobid := Some 4242, is_started := True\<rparr>"

definition slurm_done :: mgr where
  "slurm_done =
     slurm_submitted\<lparr>waiting_steps := 2, running_steps := 1, is_terminated := Some True\<rparr>"

text \<open>The status commands and the file reads recorded in a trace.\<close>

fun queries :: "event list \<Rightarrow> string list list" where
  "queries [] = []"
| "queries (Run c # evs) = c # queries evs"
| "queries (e # evs) = queries evs"

fun files_read :: "event list \<Rightarrow> string list" where
  "files_read [] = []"
| "files_read (ReadFile f # evs) = f # files_read evs"
| "files_read (e # evs) = files_read evs"

section \<open>Properties of the progress stepper\<close>

lemma is_Stdout_print_line [simp]: "is_Stdout (print_line s)"
  by (simp add: print_line_def)

lemma sent_signals_print_line [simp]: "sent_signals (print_line s # evs) = sent_signals evs"
  by (simp add: print_line_def)




section \<open>Properties of the interrupt ladder\<close>

lemma interrupt_body_cases:
  "interrupt_body l =
     (if on_sigint l \<noteq> None then ([Send SIGINT], Inl (the (on_sigint l)))
      else if poll_after_sigint l \<noteq> None
        then ([Send SIGINT, Sleep 100, Poll, print_line ''Process is interrupted.''], Inr ())
      else if on_terminate l \<noteq> None
        then ([Send SIGINT, Sleep 100, Poll, Send SIGTERM], Inl (the (on_terminate l)))
      else if poll_after_terminate l \<noteq> None
        then ([Send SIGINT, Sleep 100, Poll, Send SIGTERM, Sleep 100, Poll,
               print_line ''Process is terminated.''], Inr ())
      else if on_kill l \<noteq> None
        then ([Send SIGINT, Sleep 100, Poll, Send SIGTERM, Sleep 100, Poll, Send SIGKILL],
              Inl (the (on_kill l)))
      else ([Send SIGINT, Sleep 100, Poll, Send SIGTERM, Sleep 100, Poll, Send SIGKILL,
             print_line ''Process is killed.''], Inr ()))"
  unfolding interrupt_body_def
  by (cases "on_sigint l"; cases "poll_after_sigint l"; cases "on_terminate l";
      cases "poll_after_terminate l"; cases "on_kill l"; simp)

lemma os_level_Some: "os_level (Some e) \<Longrightarrow> \<exists>n. e = OSError n"
  by (cases e) simp_all

lemma interrupt_body_raises:
  assumes "raises_only_OSError l" and "snd (interrupt_body l) = Inl e"
  shows "\<exists>n. e = OSError n"
  using assms
  by (auto simp: interrupt_body_cases raises_only_OSError_def
           split: if_splits dest!: os_level_Some)

lemma interrupt_OSError:
  assumes "p m = Some pid" and "raises_only_OSError l"
  shows "interrupt l etext m = (fst (interrupt_body l), Inr (), m)"
proof (cases "snd (interrupt_body l)")
  case (Inr u)
  then show ?thesis using assms(1)
    by (cases "interrupt_body l") (simp add: interrupt_def)
next
  case (Inl e)
  then obtain n where "e = OSError n"
    using interrupt_body_raises [OF assms(2)] by blast
  then show ?thesis using Inl assms(1)
    by (cases "interrupt_body l") (simp add: interrupt_def)
qed

lemma interrupt_body_prefix:
  "prefix (filter (\<lambda>e. \<not> is_Stdout e) (fst (interrupt_body l)))
     [Send SIGINT, Sleep 100, Poll, Send SIGTERM, Sleep 100, Poll, Send SIGKILL]"
  by (simp add: interrupt_body_cases)

lemma interrupt_body_first: "take 1 (fst (interrupt_body l)) = [Send SIGINT]"
  by (simp add: interrupt_body_cases)

lemma interrupt_body_terminate:
  "SIGTERM \<in> set (sent_signals (fst (interrupt_body l))) \<longleftrightarrow>
     on_sigint l = None \<and> poll_after_sigint l = None"
  by (simp add: interrupt_body_cases)

lemma interrupt_body_kill:
  "SIGKILL \<in> set (sent_signals (fst (interrupt_body l))) \<longleftrightarrow>
     on_sigint l = None \<and> poll_after_sigint l = None \<and>
     on_terminate l = None \<and> poll_after_terminate l = None"
  by (simp add: interrupt_body_cases)

text \<open>
  C3.  On a manager that has a process, whenever the exceptions raised by the
  signalling calls are OS-level errors, \<open>_interrupt\<close> returns normally and leaves the
  manager unchanged.  Apart from the final message, what it does is an initial part of
  the ladder SIGINT, 100 ms, poll, terminate, 100 ms, poll, kill; SIGINT is always
  sent first; terminate is sent exactly when SIGINT went through and the first poll
  found the process alive; kill is sent exactly when, moreover, terminate went through
  and the second poll found the process alive.
\<close>

theorem interrupt_ladder:
  assumes "p m = Some pid" and "raises_only_OSError l"
  shows "snd (interrupt l etext m) = (Inr (), m) \<and>
         prefix (filter (\<lambda>e. \<not> is_Stdout e) (fst (interrupt l etext m)))
           [Send SIGINT, Sleep 100, Poll, Send SIGTERM, Sleep 100, Poll, Send SIGKILL] \<and>
         take 1 (fst (interrupt l etext m)) = [Send SIGINT] \<and>
         (SIGTERM \<in> set (sent_signals (fst (interrupt l etext m))) \<longleftrightarrow>
            on_sigint l = None \<and> poll_after_sigint l = None) \<and>
         (SIGKILL \<in> set (sent_signals (fst (interrupt l etext m))) \<longleftrightarrow>
            on_sigint l = None \<and> poll_after_sigint l = None \<and>
            on_terminate l = None \<and> poll_after_terminate l = None)"
  unfolding interrupt_OSError [OF assms]
  using interrupt_body_prefix [of l] interrupt_body_first [of l]
    interrupt_body_terminate [of l] interrupt_body_kill [of l]
  by simp

theorem interrupt_ladder_witness:
  "snd (interrupt \<lparr>on_sigint = None, poll_after_sigint = None,
                    on_terminate = Some (OSError 3), poll_after_terminate = None,
                    on_kill = None\<rparr> []
          ((BaseMgr_init SSHMgr ''/bin/bash'' Map.empty)\<lparr>p := Some 77\<rparr>))
     = (Inr (), (BaseMgr_init SSHMgr ''/bin/bash'' Map.empty)\<lparr>p := Some 77\<rparr>) \<and>
   sent_signals (fst (interrupt \<lparr>on_sigint = None, poll_after_sigint = None,
                    on_terminate = Some (OSError 3), poll_after_terminate = None,
                    on_kill = None\<rparr> []
          ((BaseMgr_init SSHMgr ''/bin/bash'' Map.empty)\<lparr>p := Some 77\<rparr>)))
     = [SIGINT, SIGTERM]"
  using interrupt_ladder [of "(BaseMgr_init SSHMgr ''/bin/bash'' Map.empty)\<lparr>p := Some 77\<rparr>" 77
      "\<lparr>on_sigint = None, poll_after_sigint = None,
        on_terminate = Some (OSError 3), poll_after_terminate = None, on_kill = None\<rparr>" "[]"]
  by (simp add: raises_only_OSError_def interrupt_def interrupt_body_def)

section \<open>Facts about the output phase\<close>

lemma files_read_state_check [simp]: "files_read (state_check r j c) = []"
  by (simp add: state_check_def get_job_state_def)

lemma Slurm_get_output_hit:
  assumes "is_started m" and "is_terminated m = Some True" and "jobid m = Some j"
    and "out m \<noteq> None \<or> err m \<noteq> None"
  shows "SlurmMgr_get_output r f m = (state_check r j (cmd m), Inr (RPair (out m) (err m)), m)"
  using assms unfolding SlurmMgr_get_output_def by auto

lemma Slurm_get_output_miss:
  assumes "is_started m" and "is_terminated m = Some True" and "jobid m = Some j"
    and "out m = None" and "err m = None"
    and "read_results f (job_file j (outerr_files m) @ ''.out'') (job_file j (outerr_files m) @ ''.err'') = (e1, jo, je)"
  shows "SlurmMgr_get_output r f m =
     (case je of None \<Rightarrow> (state_check r j (cmd m) @ e1, Inl (UnboundLocalError ''job_err''), m)
      | Some x \<Rightarrow> (state_check r j (cmd m) @ e1, Inr (RPair (Some jo) (Some x)), m\<lparr>out := Some jo, err := Some x\<rparr>))"
  using assms unfolding SlurmMgr_get_output_def by (simp split: option.splits)

lemma Slurm_get_output_no_jobid:
  assumes "is_started m" and "is_terminated m = Some True" and "jobid m = None"
  shows "SlurmMgr_get_output r f m = ([], Inl (AttributeError ''_jobid''), m)"
  using assms unfolding SlurmMgr_get_output_def by simp

lemma SlurmMgr_get_output_memo:
  assumes ret: "SlurmMgr_get_output r1 f1 m = (e1, Inr r, m1)"
    and st: "is_started m" and tm: "is_terminated m = Some True"
  shows "fst (snd (SlurmMgr_get_output r2 f2 m1)) = Inr r \<and>
         snd (snd (SlurmMgr_get_output r2 f2 m1)) = m1 \<and>
         files_read (fst (SlurmMgr_get_output r2 f2 m1)) = []"
proof (cases "jobid m")
  case None
  then show ?thesis using ret Slurm_get_output_no_jobid [OF st tm] by simp
next
  case (Some j)
  show ?thesis
  proof (cases "out m = None \<and> err m = None")
    case False
    then have ne: "out m \<noteq> None \<or> err m \<noteq> None" by simp
    have "m1 = m" and "r = RPair (out m) (err m)"
      using ret Slurm_get_output_hit [OF st tm Some ne, of r1 f1] by auto
    then show ?thesis using Slurm_get_output_hit [OF st tm Some ne, of r2 f2] by simp
  next
    case True
    obtain ev jo je where rr: "read_results f1 (job_file j (outerr_files m) @ ''.out'')
        (job_file j (outerr_files m) @ ''.err'') = (ev, jo, je)"
      by (metis prod_cases3)
    have eq: "SlurmMgr_get_output r1 f1 m =
     (case je of None \<Rightarrow> (state_check r1 j (cmd m) @ ev, Inl (UnboundLocalError ''job_err''), m)
      | Some x \<Rightarrow> (state_check r1 j (cmd m) @ ev, Inr (RPair (Some jo) (Some x)), m\<lparr>out := Some jo, err := Some x\<rparr>))"
      using Slurm_get_output_miss [OF st tm Some _ _ rr] True by simp
    then obtain x where je: "je = Some x" using ret by (cases je) simp_all
    have m1: "m1 = m\<lparr>out := Some jo, err := Some x\<rparr>" and r: "r = RPair (Some jo) (Some x)"
      using eq ret je by auto
    have "SlurmMgr_get_output r2 f2 m1 = (state_check r2 j (cmd m1), Inr (RPair (out m1) (err m1)), m1)"
      by (rule Slurm_get_output_hit) (simp_all add: m1 st tm Some)
    then show ?thesis by (simp add: m1 r)
  qed
qed

lemma SSH_get_output_hit:
  assumes "is_terminated m = Some True" and "out m \<noteq> None \<or> err m \<noteq> None"
  shows "SSHMgr_get_output s m = ([], Inr (RPair (out m) (err m)), m)"
  using assms unfolding SSHMgr_get_output_def by auto

lemma SSH_get_output_miss:
  assumes "is_terminated m = Some True" and "out m = None" and "err m = None"
  shows "SSHMgr_get_output s m =
    (case p m of None \<Rightarrow> ([], Inl (AttributeError ''p''), m)
     | Some pid \<Rightarrow> ([ReadStreams], Inr (RPair (Some (fst s)) (Some (snd s))),
                  m\<lparr>out := Some (fst s), err := Some (snd s)\<rparr>))"
  using assms unfolding SSHMgr_get_output_def by simp

lemma SSHMgr_get_output_memo:
  assumes ret: "SSHMgr_get_output s1 m = (e1, Inr r, m1)" and tm: "is_terminated m = Some True"
  shows "SSHMgr_get_output s2 m1 = ([], Inr r, m1)"
proof (cases "out m = None \<and> err m = None")
  case False
  then have ne: "out m \<noteq> None \<or> err m \<noteq> None" by simp
  have "m1 = m" and "r = RPair (out m) (err m)"
    using ret SSH_get_output_hit [OF tm ne, of s1] by auto
  then show ?thesis using SSH_get_output_hit [OF tm ne, of s2] by simp
next
  case True
  then have eq: "SSHMgr_get_output s1 m =
    (case p m of None \<Rightarrow> ([], Inl (AttributeError ''p''), m)
     | Some pid \<Rightarrow> ([ReadStreams], Inr (RPair (Some (fst s1)) (Some (snd s1))),
                  m\<lparr>out := Some (fst s1), err := Some (snd s1)\<rparr>))"
    using SSH_get_output_miss [OF tm] by simp
  then obtain pid where "p m = Some pid" using ret by (cases "p m") simp_all
  then have m1: "m1 = m\<lparr>out := Some (fst s1), err := Some (snd s1)\<rparr>"
    and r: "r = RPair (Some (fst s1)) (Some (snd s1))"
    using eq ret by auto
  have "SSHMgr_get_output s2 m1 = ([], Inr (RPair (out m1) (err m1)), m1)"
    by (rule SSH_get_output_hit) (simp_all add: m1 tm)
  then show ?thesis by (simp add: m1 r)
qed

section \<open>Facts about spawning\<close>











section \<open>The scenario managers are what the constructors build\<close>

lemma basic_fresh_constructed:
  "BasicMgr_init (Inr 100) [] ''/bin/bash'' Map.empty = ([Spawn [''bash'']], Inr basic_fresh)"
  by (simp add: BasicMgr_init_def basic_fresh_def Let_def)

lemma ssh_fresh_constructed:
  "SSHMgr_init no_options [] ''/bin/bash'' Map.empty = ([], Inr ssh_fresh)"
  by (simp add: SSHMgr_init_def no_options_def ssh_fresh_def)

lemma slurm_fresh_constructed:
  "SlurmMgr_init None (Some ''/home/u'') no_jobid (Inr 100) [] ''/bin/bash'' Map.empty =
     ([Spawn (cmd slurm_fresh)], Inr slurm_fresh)"
  by (simp add: SlurmMgr_init_def no_jobid_def path_join_def slurm_fresh_def Let_def)

lemma SSHMgr_submit_alive_general:
  "SSHMgr_submit (Inr pid) l etext None streams content m =
     ([Spawn (cmd m @ [content]), Poll], Inl (NameError ''_args''),
      m\<lparr>is_terminated := Some False, p := Some pid\<rparr>)"
  by (simp add: SSHMgr_submit_def ssh_after_spawn_def Let_def)

section \<open>The remote backend\<close>

text \<open>
  C7, at a failing input.  A remote manager is built for \<open>localhost\<close> and the cell
  \<open>sleep 60\<close> is submitted; the process is spawned with the cell as last argument
  and is alive at the single probe.  The claim has the pid recorded and a started
  message returned.  The code raises \<open>NameError\<close>: \<open>submit\<close> reads \<open>_args\<close>, a local
  variable of the constructor.
\<close>
theorem SSHMgr_submit_alive:
  "SSHMgr_init no_options [] ''/bin/bash'' Map.empty = ([], Inr ssh_fresh) \<and>
   SSHMgr_submit (Inr 4711) stubborn [] None ([], []) ''sleep 60'' ssh_fresh =
     ([Spawn [''ssh'', ''-n'', ''localhost'', ''sleep 60''], Poll], Inl (NameError ''_args''),
      ssh_fresh\<lparr>is_terminated := Some False, p := Some 4711\<rparr>)"
  by (simp add: ssh_fresh_constructed SSHMgr_submit_alive_general) (simp add: ssh_fresh_def)

text \<open>
  C5, at a failing input.  For the remote manager of the scenario above, left by
  \<open>submit\<close> with a live process and \<open>_is_terminated\<close> false, \<open>get_output\<close> returns a
  bare \<open>None\<close>, which is not the pair \<open>(None, None)\<close>.
\<close>
theorem SSHMgr_get_output_before_termination:
  "SSHMgr_get_output (''partial'', [])
     (snd (snd (SSHMgr_submit (Inr 4711) stubborn [] None ([], []) ''sleep 60'' ssh_fresh))) =
     ([], Inr RNone, ssh_fresh\<lparr>is_terminated := Some False, p := Some 4711\<rparr>) \<and>
   RNone \<noteq> RPair None None"
  by (simp add: SSHMgr_submit_alive_general SSHMgr_get_output_def)

lemma digit_chars:
  "digit_char 0 = CHR ''0''" "digit_char 1 = CHR ''1''" "digit_char 2 = CHR ''2''"
  "digit_char 3 = CHR ''3''" "digit_char 4 = CHR ''4''" "digit_char 5 = CHR ''5''"
  "digit_char 6 = CHR ''6''" "digit_char 7 = CHR ''7''" "digit_char 8 = CHR ''8''"
  "digit_char 9 = CHR ''9''"
  by (simp_all add: digit_char_def char_of_def bit_0)
lemma str_int_4242: "str_int 4242 = ''4242''"
  by (simp add: str_int_def digit_chars)

section \<open>The result files of the cluster backend\<close>

lemma read_results_err_missing:
  "read_results [o_f @ ''.out'' \<mapsto> c] (o_f @ ''.out'') (o_f @ ''.err'') =
     ([ReadFile (o_f @ ''.out''), ReadFile (o_f @ ''.err'')] @ not_found (o_f @ ''.err''), c, None)"
  by (simp add: read_results_def)

lemma job_file_4242: "job_file 4242 ''/home/u/python-execute-slurm.%J'' = ''/home/u/python-execute-slurm.4242''"
  by (simp add: job_file_def str_int_4242)

text \<open>
  C8, at a failing input.  Job 4242 is terminated, its \<open>.out\<close> file exists and its
  \<open>.err\<close> file is missing.  The claim has the missing file read as the empty string.
  The code reports the file and then raises \<open>UnboundLocalError\<close>: \<open>job_err\<close> was
  never assigned.
\<close>

theorem SlurmMgr_get_output_err_missing:
  "SlurmMgr_get_output (''COMPLETED'', []) [''/home/u/python-execute-slurm.4242.out'' \<mapsto> ''done''] slurm_done =
     (state_check (''COMPLETED'', []) 4242 (cmd slurm_done) @
      [ReadFile ''/home/u/python-execute-slurm.4242.out'',
       ReadFile ''/home/u/python-execute-slurm.4242.err''] @
      not_found ''/home/u/python-execute-slurm.4242.err'',
      Inl (UnboundLocalError ''job_err''), slurm_done)"
proof -
  have st: "is_started slurm_done" "is_terminated slurm_done = Some True"
    "jobid slurm_done = Some 4242" "out slurm_done = None" "err slurm_done = None"
    "outerr_files slurm_done = ''/home/u/python-execute-slurm.%J''"
    by (simp_all add: slurm_done_def slurm_submitted_def slurm_fresh_def BaseMgr_init_def)
  have rr: "read_results [''/home/u/python-execute-slurm.4242.out'' \<mapsto> ''done'']
      (job_file 4242 (outerr_files slurm_done) @ ''.out'')
      (job_file 4242 (outerr_files slurm_done) @ ''.err'') =
     ([ReadFile (''/home/u/python-execute-slurm.4242'' @ ''.out''), ReadFile (''/home/u/python-execute-slurm.4242'' @ ''.err'')] @ not_found (''/home/u/python-execute-slurm.4242'' @ ''.err''), ''done'', None)"
    unfolding st(6) job_file_4242
    using read_results_err_missing [of "''/home/u/python-execute-slurm.4242''" "''done''"] by simp
  show ?thesis
    using Slurm_get_output_miss [OF st(1) st(2) st(3) st(4) st(5) rr, of "(''COMPLETED'', [])"]
    by simp
qed


section \<open>Missing executable\<close>



section \<open>Memoized output\<close>

text \<open>
  C6 (amended).  For the remote and the cluster backend, once a job is terminated, a
  call of \<open>get_output\<close> that returns a result is followed by calls that return the same
  result and leave the manager unchanged, whatever the streams, the status reply and
  the files are by then; the cluster backend reads no file again.  For the local backend
  \<open>get_output\<close> always returns \<open>(None, None)\<close>.
\<close>
theorem get_output_memoized:
  "(is_terminated m = Some True \<and> SSHMgr_get_output s1 m = (e1, Inr r, m1) \<longrightarrow>
      SSHMgr_get_output s2 m1 = ([], Inr r, m1)) \<and>
   (is_started m \<and> is_terminated m = Some True \<and>
    SlurmMgr_get_output r1 f1 m = (e1, Inr r, m1) \<longrightarrow>
      fst (snd (SlurmMgr_get_output r2 f2 m1)) = Inr r \<and>
      snd (snd (SlurmMgr_get_output r2 f2 m1)) = m1 \<and>
      files_read (fst (SlurmMgr_get_output r2 f2 m1)) = []) \<and>
   BasicMgr_get_output m = ([], Inr (RPair None None), m)"
  using SSHMgr_get_output_memo [of s1 m e1 r m1 s2]
    SlurmMgr_get_output_memo [of r1 f1 m e1 r m1 r2 f2]
  by (simp add: BasicMgr_get_output_def)

theorem get_output_memoized_witness:
  "SSHMgr_get_output (''changed'', ''x'')
     (ssh_fresh\<lparr>is_terminated := Some True, p := Some 4711, out := Some ''a'', err := Some ''b''\<rparr>) =
     ([], Inr (RPair (Some ''a'') (Some ''b'')),
      ssh_fresh\<lparr>is_terminated := Some True, p := Some 4711, out := Some ''a'', err := Some ''b''\<rparr>)"
proof -
  have 1: "is_terminated (ssh_fresh\<lparr>is_terminated := Some True, p := Some 4711\<rparr>) = Some True"
    by simp
  have 2: "SSHMgr_get_output (''a'', ''b'') (ssh_fresh\<lparr>is_terminated := Some True, p := Some 4711\<rparr>) =
     ([ReadStreams], Inr (RPair (Some ''a'') (Some ''b'')),
      ssh_fresh\<lparr>is_terminated := Some True, p := Some 4711, out := Some ''a'', err := Some ''b''\<rparr>)"
    by (simp add: SSHMgr_get_output_def ssh_fresh_def BaseMgr_init_def)
  show ?thesis
    using 1 2 get_output_memoized [of "ssh_fresh\<lparr>is_terminated := Some True, p := Some 4711\<rparr>"
        "(''a'', ''b'')" "[ReadStreams]" "RPair (Some ''a'') (Some ''b'')"
        "ssh_fresh\<lparr>is_terminated := Some True, p := Some 4711, out := Some ''a'', err := Some ''b''\<rparr>"
        "(''changed'', ''x'')"]
    by simp
qed

lemma script_echo: "make_script basic_fresh ''echo hi'' = ''#!/bin/bash \<newline>echo hi\<newline>''"
  by (simp add: make_script_def basic_fresh_def BaseMgr_init_def endswith_def nl_def Let_def)

text \<open>
  C6 as stated fails for the local backend: \<open>submit\<close> captures the pair
  \<open>('hi', '')\<close> and stores it, and \<open>get_output\<close> afterwards returns \<open>(None, None)\<close>.
\<close>

theorem BasicMgr_get_output_counterexample:
  "BasicMgr_submit (Inr (''hi'', [])) stubborn [] ''echo hi'' basic_fresh =
     ([Communicate ''#!/bin/bash \<newline>echo hi\<newline>''], Inr (RPair (Some ''hi'') (Some [])),
      basic_fresh\<lparr>out := Some ''hi'', err := Some []\<rparr>) \<and>
   BasicMgr_get_output (basic_fresh\<lparr>out := Some ''hi'', err := Some []\<rparr>) =
     ([], Inr (RPair None None), basic_fresh\<lparr>out := Some ''hi'', err := Some []\<rparr>)"
  using script_echo
  by (simp add: BasicMgr_submit_def BasicMgr_get_output_def Let_def) (simp add: basic_fresh_def)

end
